theory Spec2Isabelle
  imports Main "HOL-Library.AList"
begin

section \<open>Python values used by HTTPproxy.py\<close>

text \<open>
  The proxy works on two Python types of text: \<^verbatim>\<open>bytes\<close> (what a socket
  delivers and accepts) and \<^verbatim>\<open>str\<close> (what \<^verbatim>\<open>bytes.decode()\<close> returns).
  Both are modelled by \<^typ>\<open>string\<close>. A \<^verbatim>\<open>bytes\<close> object is the list of its
  bytes. A \<^verbatim>\<open>str\<close> is represented by the bytes of its UTF-8 encoding, so that
  \<^verbatim>\<open>decode()\<close> is the check that the bytes are well-formed UTF-8 and
  \<^verbatim>\<open>encode()\<close> returns the representation. Every character the program
  searches for, splits at or compares with is ASCII, one byte in UTF-8, and on an
  ASCII \<^verbatim>\<open>str\<close> positions in the representation are Python's positions.

  An exception that the program does not catch is a value of \<open>py_error\<close>.
\<close>

datatype py_error =
    IndexError
  | ValueError
  | TypeError
  | AttributeError
  | UnicodeDecodeError
  | ReError
  | OSError

abbreviation CR :: char where "CR \<equiv> CHR 0x0D"
abbreviation LF :: char where "LF \<equiv> CHR 0x0A"
abbreviation SP :: char where "SP \<equiv> CHR 0x20"

definition CRLF :: string where
  "CRLF = [CR, LF]"

subsection \<open>Methods of \<^verbatim>\<open>str\<close>\<close>

definition startswith :: "string \<Rightarrow> string \<Rightarrow> bool" where
  "startswith s p = (take (length p) s = p)"

definition endswith :: "string \<Rightarrow> string \<Rightarrow> bool" where
  "endswith s p = (length p \<le> length s \<and> drop (length s - length p) s = p)"

text \<open>\<^verbatim>\<open>s.find(sub)\<close>: the lowest index where \<open>sub\<close> starts, or \<open>-1\<close>.\<close>

fun find_from :: "string \<Rightarrow> string \<Rightarrow> nat \<Rightarrow> int" where
  "find_from [] sub i = (if sub = [] then int i else - 1)"
| "find_from (c # s) sub i =
     (if startswith (c # s) sub then int i else find_from s sub (Suc i))"

definition find_str :: "string \<Rightarrow> string \<Rightarrow> int" where
  "find_str s sub = find_from s sub 0"

text \<open>\<^verbatim>\<open>s.index(sub)\<close>: as \<^verbatim>\<open>find\<close>, but raises ValueError when \<open>sub\<close> is absent.\<close>

definition index_str :: "string \<Rightarrow> string \<Rightarrow> py_error + int" where
  "index_str s sub = (let i = find_str s sub in if i = - 1 then Inl ValueError else Inr i)"

text \<open>\<^verbatim>\<open>s.split(sep)\<close> for a separator of one character: never the empty list.\<close>

fun split_str :: "char \<Rightarrow> string \<Rightarrow> string list" where
  "split_str sep [] = [[]]"
| "split_str sep (c # s) =
     (if c = sep then [] # split_str sep s
      else (case split_str sep s of
              [] \<Rightarrow> [[c]]
            | t # ts \<Rightarrow> (c # t) # ts))"

text \<open>
  Slices \<^verbatim>\<open>s[:i]\<close> and \<^verbatim>\<open>s[i:]\<close> and the subscript \<^verbatim>\<open>s[i]\<close>, with Python's
  reading of a negative index (counted from the end). Slices clamp; the subscript
  raises IndexError out of range.
\<close>

definition slice_to :: "string \<Rightarrow> int \<Rightarrow> string" where
  "slice_to s i = (if 0 \<le> i then take (nat i) s else take (nat (int (length s) + i)) s)"

definition slice_from :: "string \<Rightarrow> int \<Rightarrow> string" where
  "slice_from s i = (if 0 \<le> i then drop (nat i) s else drop (nat (int (length s) + i)) s)"

definition char_at :: "string \<Rightarrow> int \<Rightarrow> py_error + char" where
  "char_at s i =
     (let n = int (length s); j = (if i < 0 then n + i else i)
      in if 0 \<le> j \<and> j < n then Inr (s ! nat j) else Inl IndexError)"

text \<open>
  \<^verbatim>\<open>s.splitlines()\<close>. A \<^verbatim>\<open>str\<close> is broken after a line feed, a
  carriage return, a carriage return followed by a line feed, the characters of
  code 0B, 0C, 1C, 1D and 1E, and the characters U+0085, U+2028 and U+2029; the
  last three are the byte sequences C2 85, E2 80 A8 and E2 80 A9 of the
  representation. The breaks are not kept, and an empty last line is not returned.
\<close>

definition ascii_linebreak :: "char \<Rightarrow> bool" where
  "ascii_linebreak c =
     (c = LF \<or> c = CHR 0x0B \<or> c = CHR 0x0C \<or> c = CHR 0x1C \<or> c = CHR 0x1D \<or> c = CHR 0x1E)"

fun splitlines_from :: "string \<Rightarrow> string \<Rightarrow> string list" where
  "splitlines_from cur [] = (if cur = [] then [] else [cur])"
| "splitlines_from cur (c # s) =
     (if c = CR then
        (if take 1 s = [LF] then cur # splitlines_from [] (drop 1 s)
         else cur # splitlines_from [] s)
      else if ascii_linebreak c then cur # splitlines_from [] s
      else if c = CHR 0xC2 \<and> take 1 s = [CHR 0x85] then cur # splitlines_from [] (drop 1 s)
      else if c = CHR 0xE2 \<and> (take 2 s = [CHR 0x80, CHR 0xA8] \<or> take 2 s = [CHR 0x80, CHR 0xA9])
        then cur # splitlines_from [] (drop 2 s)
      else splitlines_from (cur @ [c]) s)"

definition splitlines :: "string \<Rightarrow> string list" where
  "splitlines s = splitlines_from [] s"

text \<open>\<^verbatim>\<open>str(n)\<close> for an integer.\<close>

fun str_nat :: "nat \<Rightarrow> string" where
  "str_nat n =
     (if n < 10 then [''0123456789'' ! n]
      else str_nat (n div 10) @ [''0123456789'' ! (n mod 10)])"

definition str_int :: "int \<Rightarrow> string" where
  "str_int i = (if i < 0 then CHR ''-'' # str_nat (nat (- i)) else str_nat (nat i))"

subsection \<open>The three fixed regular expressions of parseRequest\<close>

text \<open>
  \<^verbatim>\<open>re.match(r"(HEAD|OPTIONS|TRACE|PUT|DELETE|POST|PATCH|CONNECT)", s)\<close> succeeds when
  \<open>s\<close> begins with one of the eight words: \<^verbatim>\<open>re.match\<close> anchors at the start only.
\<close>

definition unimplemented_methods :: "string list" where
  "unimplemented_methods =
     [''HEAD'', ''OPTIONS'', ''TRACE'', ''PUT'', ''DELETE'', ''POST'', ''PATCH'', ''CONNECT'']"

definition match_method :: "string \<Rightarrow> bool" where
  "match_method s = list_ex (startswith s) unimplemented_methods"

text \<open>
  \<^verbatim>\<open>re.match(r"^[A-Za-z0-9-]+$", s)\<close>: one or more characters of the class, up to the
  end of \<open>s\<close> or up to a newline that ends \<open>s\<close> (which \<^verbatim>\<open>$\<close> also accepts).
\<close>

definition name_char :: "char \<Rightarrow> bool" where
  "name_char c =
     (let n = (of_char c :: nat)
      in (65 \<le> n \<and> n \<le> 90) \<or> (97 \<le> n \<and> n \<le> 122) \<or> (48 \<le> n \<and> n \<le> 57) \<or> n = 45)"

definition match_header_name :: "string \<Rightarrow> bool" where
  "match_header_name s =
     (let t = (if s \<noteq> [] \<and> last s = LF then butlast s else s)
      in t \<noteq> [] \<and> list_all name_char t)"

text \<open>\<^verbatim>\<open>re.match(r"^.+", s)\<close>: a first character that is not a newline.\<close>

definition match_some_data :: "string \<Rightarrow> bool" where
  "match_some_data s = (case s of [] \<Rightarrow> False | c # _ \<Rightarrow> c \<noteq> LF)"

section \<open>What the program takes from outside\<close>

text \<open>
  \<^verbatim>\<open>urlparse\<close> returns an object with the attributes \<^verbatim>\<open>scheme\<close>, \<^verbatim>\<open>netloc\<close>,
  \<^verbatim>\<open>path\<close>, \<^verbatim>\<open>hostname\<close> (None when the network location names no host) and
  \<^verbatim>\<open>port\<close> (a property that raises ValueError when the port is not a number of
  the range 0..65535, and is None when the URL has no port).
\<close>

record ParseResult =
  scheme :: string
  netloc :: string
  path :: string
  hostname :: "string option"
  port :: "py_error + int option"

text \<open>
  The environment of a run: the global \<^verbatim>\<open>address\<close> set from the command line,
  the two library functions whose source is not the program's (\<^verbatim>\<open>urlparse\<close> of
  urllib.parse, which may raise, and \<^verbatim>\<open>re.search\<close>, which raises \<^verbatim>\<open>re.error\<close>
  on a pattern that is not a regular expression), and the origin servers: whether
  \<^verbatim>\<open>connect((host, port))\<close> succeeds, and what the successive \<^verbatim>\<open>recv\<close> calls
  return after the bytes of a request were sent, before the origin closes.
\<close>

record env =
  address :: string
  urlparse :: "string \<Rightarrow> py_error + ParseResult"
  re_search :: "string \<Rightarrow> string \<Rightarrow> py_error + bool"
  connect_ok :: "string \<Rightarrow> int \<Rightarrow> bool"
  origin_reply :: "string \<Rightarrow> int \<Rightarrow> string \<Rightarrow> string list"

section \<open>parseRequest\<close>

datatype ParseType = REGULAR | NOTIMPL | BADREQ | COMMAND

text \<open>
  The tuple that parseRequest returns: a ParseType, host, port, path and the
  dictionary of headers, each of the last four None where the source returns None.
  A dictionary is the list of its items in insertion order; assigning to a key that
  is present keeps its place (\<^const>\<open>AList.update\<close>).
\<close>

record request =
  r_type :: ParseType
  r_host :: "string option"
  r_port :: "int option"
  r_path :: "string option"
  r_headers :: "(string \<times> string) list option"

definition rejected :: "ParseType \<Rightarrow> request" where
  "rejected t = \<lparr>r_type = t, r_host = None, r_port = None, r_path = None, r_headers = None\<rparr>"

text \<open>
  The loop over the header lines (lines 97 to 106). \<open>Inr None\<close> is the early
  \<^verbatim>\<open>return (ParseType.BADREQ, ...)\<close>, \<open>Inr (Some headers)\<close> the end of the loop. The
  \<^verbatim>\<open>and\<close> of line 103 evaluates \<^verbatim>\<open>message[colonIndex+1]\<close> only when the name
  matched.
\<close>

fun header_loop :: "string list \<Rightarrow> (string \<times> string) list \<Rightarrow> py_error + (string \<times> string) list option" where
  "header_loop [] headers = Inr (Some headers)"
| "header_loop (message # messageHeaders) headers =
     (if message = [] \<or> message = '' '' \<or> message = ''HTTP/1.0''
      then header_loop messageHeaders headers
      else if \<not> match_header_name (slice_to message (find_str message '':''))
      then Inr None
      else (case char_at message (find_str message '':'' + 1) of
              Inl err \<Rightarrow> Inl err
            | Inr c \<Rightarrow>
                if c = SP \<and> match_some_data (slice_from message (find_str message '':'' + 2))
                then header_loop messageHeaders
                       (AList.update (slice_to message (find_str message '':''))
                          (slice_from message (find_str message '':'' + 2)) headers)
                else Inr None))"

definition rebuiltHeaders :: "string list \<Rightarrow> string" where
  "rebuiltHeaders splitMessage = concat (map (\<lambda>t. t @ '' '') (drop 2 splitMessage))"

definition parseRequest :: "env \<Rightarrow> string \<Rightarrow> py_error + request" where
  "parseRequest e message =
     (let splitMessage = split_str SP message in
      if match_method (splitMessage ! 0) then Inr (rejected NOTIMPL)
      else if splitMessage ! 0 \<noteq> ''GET'' then Inr (rejected BADREQ)
      else if length splitMessage < 3 then Inr (rejected BADREQ)
      else if take 8 (splitMessage ! 2) \<noteq> ''HTTP/1.0'' then Inr (rejected BADREQ)
      else (case urlparse e (splitMessage ! 1) of
              Inl err \<Rightarrow> Inl err
            | Inr splitURL \<Rightarrow>
                if scheme splitURL = [] \<or> netloc splitURL = [] \<or> path splitURL = []
                then Inr (rejected BADREQ)
                else (case port splitURL of
                        Inl err \<Rightarrow> Inl err
                      | Inr p \<Rightarrow>
                          if take 7 (path splitURL) = ''/proxy/'' \<and> hostname splitURL = Some (address e)
                          then Inr \<lparr>r_type = COMMAND, r_host = None, r_port = None,
                                    r_path = Some (drop 7 (path splitURL)), r_headers = Some []\<rparr>
                          else (case header_loop (splitlines (rebuiltHeaders splitMessage)) [] of
                                  Inl err \<Rightarrow> Inl err
                                | Inr None \<Rightarrow> Inr (rejected BADREQ)
                                | Inr (Some headers) \<Rightarrow>
                                    Inr \<lparr>r_type = REGULAR, r_host = hostname splitURL,
                                         r_port = Some (case p of None \<Rightarrow> 80 | Some n \<Rightarrow> n),
                                         r_path = Some (path splitURL),
                                         r_headers = Some headers\<rparr>))))"

section \<open>Sockets, bytes and the shared state\<close>

text \<open>
  Well-formed UTF-8 (the table of the Unicode standard, which \<^verbatim>\<open>bytes.decode()\<close>
  enforces: no overlong form, no surrogate, nothing above 10FFFF), on the values
  of the bytes.
\<close>

definition cont_byte :: "nat \<Rightarrow> bool" where
  "cont_byte b = (128 \<le> b \<and> b \<le> 191)"

fun utf8_wellformed :: "nat list \<Rightarrow> bool" where
  "utf8_wellformed [] = True"
| "utf8_wellformed [a] = (a < 128)"
| "utf8_wellformed [a, b] =
     (if a < 128 then utf8_wellformed [b] else 194 \<le> a \<and> a \<le> 223 \<and> cont_byte b)"
| "utf8_wellformed [a, b, c] =
     (if a < 128 then utf8_wellformed [b, c]
      else if 194 \<le> a \<and> a \<le> 223 then cont_byte b \<and> utf8_wellformed [c]
      else (a = 224 \<and> 160 \<le> b \<and> b \<le> 191 \<or> (225 \<le> a \<and> a \<le> 236 \<or> a = 238 \<or> a = 239) \<and> cont_byte b
              \<or> a = 237 \<and> 128 \<le> b \<and> b \<le> 159)
           \<and> cont_byte c)"
| "utf8_wellformed (a # b # c # d # bs) =
     (if a < 128 then utf8_wellformed (b # c # d # bs)
      else if 194 \<le> a \<and> a \<le> 223 then cont_byte b \<and> utf8_wellformed (c # d # bs)
      else if 224 \<le> a \<and> a \<le> 239 then
        (a = 224 \<and> 160 \<le> b \<and> b \<le> 191 \<or> (225 \<le> a \<and> a \<le> 236 \<or> a = 238 \<or> a = 239) \<and> cont_byte b
           \<or> a = 237 \<and> 128 \<le> b \<and> b \<le> 159)
        \<and> cont_byte c \<and> utf8_wellformed (d # bs)
      else (a = 240 \<and> 144 \<le> b \<and> b \<le> 191 \<or> 241 \<le> a \<and> a \<le> 243 \<and> cont_byte b
              \<or> a = 244 \<and> 128 \<le> b \<and> b \<le> 143)
           \<and> cont_byte c \<and> cont_byte d \<and> utf8_wellformed bs)"

definition decode :: "string \<Rightarrow> py_error + string" where
  "decode b = (if utf8_wellformed (map of_char b) then Inr b else Inl UnicodeDecodeError)"

definition encode :: "string \<Rightarrow> string" where
  "encode s = s"

text \<open>
  What \<^verbatim>\<open>send\<close> and \<^verbatim>\<open>sendall\<close> are called with: they take \<^verbatim>\<open>bytes\<close> and raise
  TypeError on a \<^verbatim>\<open>str\<close>.
\<close>

datatype pyobj = Str string | Bytes string

datatype origin_event = Connect string int | SendAll string

text \<open>
  The globals \<^verbatim>\<open>cache\<close>, \<^verbatim>\<open>blacklist\<close>, \<^verbatim>\<open>cacheActive\<close> and \<^verbatim>\<open>blacklistActive\<close>,
  and the sockets of one connection. \<open>blacklist\<close> is the set as the list of its
  elements in the order in which \<^verbatim>\<open>for netloc in blacklist\<close> visits them.
  \<open>client_recv\<close> is what the successive \<^verbatim>\<open>recv\<close> calls on the client socket
  return; when it is used up the peer has closed and \<^verbatim>\<open>recv\<close> returns \<^verbatim>\<open>b''\<close>.
  \<open>client_sent\<close> is what the client has been sent, \<open>origin_log\<close> the calls of
  \<^verbatim>\<open>connect\<close> and \<^verbatim>\<open>sendall\<close> on server sockets.

  One handler runs at a time in this model. \<open>blacklistLock\<close> says whether the
  lock of that name is held: a handler that raises between \<^verbatim>\<open>acquire()\<close> and
  \<^verbatim>\<open>release()\<close> (lines 136, 140 and 173) leaves it held for the rest of the
  process, and \<^verbatim>\<open>acquire()\<close> on a held lock never returns. \<^verbatim>\<open>cacheLock\<close> is left
  out: nothing between its \<^verbatim>\<open>acquire()\<close> and \<^verbatim>\<open>release()\<close> (lines 126 to 128,
  183 to 185, 192 to 197 and 204 to 206) can raise when one handler runs at a
  time, so it is free whenever a handler asks for it.

  A function that changes the state returns the exception it raised, if any, and
  the state at that moment.
\<close>

record world =
  cache :: "string \<rightharpoonup> string"
  blacklist :: "string list"
  cacheActive :: bool
  blacklistActive :: bool
  blacklistLock :: bool
  client_recv :: "string list"
  client_sent :: string
  client_closed :: bool
  origin_log :: "origin_event list"

definition send_client :: "pyobj \<Rightarrow> world \<Rightarrow> py_error option \<times> world" where
  "send_client data w =
     (case data of
        Bytes b \<Rightarrow> (None, w\<lparr>client_sent := client_sent w @ b\<rparr>)
      | Str s \<Rightarrow> (Some TypeError, w))"

text \<open>
  serverContact, on what the \<^verbatim>\<open>recv\<close> calls will return: the loop ends at the
  first empty result, which is also what \<^verbatim>\<open>recv\<close> returns once the origin has
  closed.
\<close>

fun serverContact :: "string list \<Rightarrow> string \<Rightarrow> string" where
  "serverContact [] serverResponse = serverResponse"
| "serverContact (response # rest) serverResponse =
     (if length response = 0 then serverResponse
      else serverContact rest (serverResponse @ response))"

text \<open>
  clientContact: the loop has no test for an empty \<^verbatim>\<open>recv\<close>, so it need not end;
  \<open>None\<close> is a run that never returns.
\<close>

partial_function (option) clientContact :: "string list \<Rightarrow> string \<Rightarrow> (py_error + string) option" where
  "clientContact chunks fullMessage =
     (if endswith fullMessage (CRLF @ CRLF) then Some (Inr fullMessage)
      else (case decode (case chunks of [] \<Rightarrow> [] | c # cs \<Rightarrow> c) of
              Inl err \<Rightarrow> Some (Inl err)
            | Inr s \<Rightarrow> clientContact (drop 1 chunks) (fullMessage @ s)))"

section \<open>handleCommand\<close>

text \<open>\<^verbatim>\<open>xs[i]\<close> on a list, for \<open>i\<close> not negative.\<close>

definition list_get :: "'a list \<Rightarrow> nat \<Rightarrow> py_error + 'a" where
  "list_get xs i = (if i < length xs then Inr (xs ! i) else Inl IndexError)"

text \<open>
  \<^verbatim>\<open>blacklist.add(x)\<close>: nothing when \<open>x\<close> is present. Where Python's set puts a
  new element in its iteration order is not fixed; here it comes last, and no
  statement below depends on that place.
\<close>

definition set_add :: "'a \<Rightarrow> 'a list \<Rightarrow> 'a list" where
  "set_add x xs = (if x \<in> set xs then xs else xs @ [x])"

text \<open>
  handleCommand: \<open>None\<close> when \<^verbatim>\<open>blacklistLock.acquire()\<close> never returns. The
  subscript \<^verbatim>\<open>commandRequest[2]\<close> of lines 136 and 140 is read with the lock held.
\<close>

definition handleCommand :: "string \<Rightarrow> world \<Rightarrow> (py_error option \<times> world) option" where
  "handleCommand fullCommand w =
     (let commandRequest = split_str (CHR ''/'') fullCommand in
      if commandRequest ! 0 = ''cache'' then
        (case list_get commandRequest 1 of
           Inl err \<Rightarrow> Some (Some err, w)
         | Inr c1 \<Rightarrow>
             if c1 = ''enable'' then Some (None, w\<lparr>cacheActive := True\<rparr>)
             else if c1 = ''disable'' then Some (None, w\<lparr>cacheActive := False\<rparr>)
             else if c1 = ''flush'' then Some (None, w\<lparr>cache := Map.empty\<rparr>)
             else Some (None, w))
      else if commandRequest ! 0 = ''blocklist'' then
        (case list_get commandRequest 1 of
           Inl err \<Rightarrow> Some (Some err, w)
         | Inr c1 \<Rightarrow>
             if c1 = ''enable'' then Some (None, w\<lparr>blacklistActive := True\<rparr>)
             else if c1 = ''disable'' then Some (None, w\<lparr>blacklistActive := False\<rparr>)
             else if c1 = ''add'' then
               (if blacklistLock w then None
                else (case list_get commandRequest 2 of
                        Inl err \<Rightarrow> Some (Some err, w\<lparr>blacklistLock := True\<rparr>)
                      | Inr pat \<Rightarrow> Some (None, w\<lparr>blacklist := set_add pat (blacklist w)\<rparr>)))
             else if c1 = ''remove'' then
               (if blacklistLock w then None
                else (case list_get commandRequest 2 of
                        Inl err \<Rightarrow> Some (Some err, w\<lparr>blacklistLock := True\<rparr>)
                      | Inr pat \<Rightarrow> Some (None, w\<lparr>blacklist := removeAll pat (blacklist w)\<rparr>)))
             else if c1 = ''flush'' then
               (if blacklistLock w then None else Some (None, w\<lparr>blacklist := []\<rparr>))
             else Some (None, w))
      else Some (None, w))"

section \<open>buildMessage and handleRequest\<close>

text \<open>An operand of \<^verbatim>\<open>+\<close> between strings: None raises TypeError.\<close>

definition str_operand :: "string option \<Rightarrow> py_error + string" where
  "str_operand x = (case x of None \<Rightarrow> Inl TypeError | Some s \<Rightarrow> Inr s)"

definition str_port :: "int option \<Rightarrow> string" where
  "str_port p = (case p of None \<Rightarrow> ''None'' | Some n \<Rightarrow> str_int n)"

fun header_lines :: "(string \<times> string) list \<Rightarrow> string" where
  "header_lines [] = []"
| "header_lines ((key, val) # items) =
     (if key = ''Connection'' then header_lines items
      else key @ '': '' @ val @ CRLF @ header_lines items)"

definition buildMessage :: "request \<Rightarrow> py_error + string" where
  "buildMessage request =
     (case str_operand (r_path request) of
        Inl err \<Rightarrow> Inl err
      | Inr p \<Rightarrow>
     (case str_operand (r_host request) of
        Inl err \<Rightarrow> Inl err
      | Inr h \<Rightarrow>
     (case r_headers request of
        None \<Rightarrow> Inl AttributeError
      | Some items \<Rightarrow>
          Inr (''GET '' @ p @ '' HTTP/1.0'' @ CRLF @ ''Host: '' @ h @ CRLF
               @ ''Connection: close'' @ CRLF @ header_lines items @ CRLF))))"

text \<open>
  Lines 172 to 176, the loop over the blocklist: \<open>Inr True\<close> is the branch that
  sends 403 and returns. The subject \<^verbatim>\<open>request[1] + ':' + str(request[2])\<close> is
  built anew for each pattern, before \<^verbatim>\<open>re.search\<close> is called.
\<close>

fun blacklist_loop :: "env \<Rightarrow> string list \<Rightarrow> request \<Rightarrow> py_error + bool" where
  "blacklist_loop e [] request = Inr False"
| "blacklist_loop e (pattern # rest) request =
     (case str_operand (r_host request) of
        Inl err \<Rightarrow> Inl err
      | Inr h \<Rightarrow>
          (case re_search e pattern (h @ '':'' @ str_port (r_port request)) of
             Inl err \<Rightarrow> Inl err
           | Inr found \<Rightarrow> if found then Inr True else blacklist_loop e rest request))"

text \<open>\<^verbatim>\<open>serverskt.connect((request[1], request[2]))\<close>.\<close>

definition connect :: "env \<Rightarrow> request \<Rightarrow> world \<Rightarrow> (py_error + string \<times> int) \<times> world" where
  "connect e request w =
     (case r_host request of
        None \<Rightarrow> (Inl TypeError, w)
      | Some h \<Rightarrow>
          (case r_port request of
             None \<Rightarrow> (Inl TypeError, w)
           | Some p \<Rightarrow>
               (if connect_ok e h p then Inr (h, p) else Inl OSError,
                w\<lparr>origin_log := origin_log w @ [Connect h p]\<rparr>)))"

text \<open>
  \<^verbatim>\<open>serverskt.sendall(message)\<close> followed by serverContact on the same socket:
  the bytes are logged and the origin's answer to them is read to its end.
\<close>

definition exchange :: "env \<Rightarrow> string \<times> int \<Rightarrow> string \<Rightarrow> world \<Rightarrow> string \<times> world" where
  "exchange e hp message w =
     (serverContact (origin_reply e (fst hp) (snd hp) message) [],
      w\<lparr>origin_log := origin_log w @ [SendAll message]\<rparr>)"

definition connectionObject :: "request \<Rightarrow> py_error + string" where
  "connectionObject request =
     (case str_operand (r_host request) of
        Inl err \<Rightarrow> Inl err
      | Inr h \<Rightarrow>
          (case str_operand (r_path request) of
             Inl err \<Rightarrow> Inl err
           | Inr p \<Rightarrow> Inr (h @ '':'' @ str_port (r_port request) @ p)))"

text \<open>The conditional GET of line 187, built before \<^verbatim>\<open>sendall\<close> is called.\<close>

definition conditional_get :: "request \<Rightarrow> string \<Rightarrow> py_error + string" where
  "conditional_get request cachedObject =
     (case str_operand (r_path request) of
        Inl err \<Rightarrow> Inl err
      | Inr p \<Rightarrow>
     (case str_operand (r_host request) of
        Inl err \<Rightarrow> Inl err
      | Inr h \<Rightarrow>
     (case index_str cachedObject ''Last-Modified:'' of
        Inl err \<Rightarrow> Inl err
      | Inr i \<Rightarrow>
     (case list_get (splitlines (slice_from cachedObject (i + 14))) 0 of
        Inl err \<Rightarrow> Inl err
      | Inr since \<Rightarrow>
          Inr (''GET '' @ p @ '' HTTP/1.0'' @ CRLF @ ''Host: '' @ h @ CRLF
               @ ''Connection: close'' @ CRLF @ ''If-Modified-Since:'' @ since @ CRLF @ CRLF)))))"

text \<open>Lines 183 to 198: the key is in the cache.\<close>

definition revalidate :: "env \<Rightarrow> request \<Rightarrow> string \<Rightarrow> string \<Rightarrow> world \<Rightarrow> py_error option \<times> world" where
  "revalidate e request key cachedObject w =
     (case connect e request w of
        (Inl err, w1) \<Rightarrow> (Some err, w1)
      | (Inr hp, w1) \<Rightarrow>
     (case conditional_get request cachedObject of
        Inl err \<Rightarrow> (Some err, w1)
      | Inr message \<Rightarrow>
     (case exchange e hp (encode message) w1 of
        (raw, w2) \<Rightarrow>
     (case decode raw of
        Inl err \<Rightarrow> (Some err, w2)
      | Inr response \<Rightarrow>
          if find_str response ''304 Not Modified'' \<noteq> - 1
          then send_client (Bytes (encode cachedObject)) w2
          else send_client (Str response)
                 (if find_str response ''200 OK'' = - 1
                  then w2\<lparr>cache := (cache w2)(key := None)\<rparr>
                  else w2\<lparr>cache := (cache w2)(key \<mapsto> response)\<rparr>)))))"

text \<open>Lines 200 to 207: caching is on and the key is not in the cache.\<close>

definition fetch_new :: "env \<Rightarrow> request \<Rightarrow> string \<Rightarrow> world \<Rightarrow> py_error option \<times> world" where
  "fetch_new e request key w =
     (case connect e request w of
        (Inl err, w1) \<Rightarrow> (Some err, w1)
      | (Inr hp, w1) \<Rightarrow>
     (case buildMessage request of
        Inl err \<Rightarrow> (Some err, w1)
      | Inr message \<Rightarrow>
     (case exchange e hp (encode message) w1 of
        (response, w2) \<Rightarrow>
     (case decode response of
        Inl err \<Rightarrow> (Some err, w2)
      | Inr text \<Rightarrow>
          send_client (Bytes response)
            (if find_str text ''200 OK'' \<noteq> - 1
             then w2\<lparr>cache := (cache w2)(key \<mapsto> text)\<rparr>
             else w2)))))"

text \<open>Lines 209 to 211: caching is off.\<close>

definition forward :: "env \<Rightarrow> request \<Rightarrow> world \<Rightarrow> py_error option \<times> world" where
  "forward e request w =
     (case connect e request w of
        (Inl err, w1) \<Rightarrow> (Some err, w1)
      | (Inr hp, w1) \<Rightarrow>
     (case buildMessage request of
        Inl err \<Rightarrow> (Some err, w1)
      | Inr message \<Rightarrow>
     (case exchange e hp (encode message) w1 of
        (response, w2) \<Rightarrow> send_client (Bytes response) w2)))"

definition forbidden :: string where
  "forbidden = ''HTTP/1.0 403 Forbidden'' @ CRLF @ CRLF"

text \<open>
  Lines 170 to 177. With blocklisting on, \<^verbatim>\<open>blacklistLock.acquire()\<close> comes first:
  \<open>None\<close> when the lock is held and the call never returns. \<open>Some (Inr True)\<close>
  when a pattern of the blocklist is found. Both ways out of the loop release
  the lock; an exception in the loop (\<open>Some (Inl err)\<close>) leaves it held.
\<close>

definition blocked :: "env \<Rightarrow> request \<Rightarrow> world \<Rightarrow> (py_error + bool) option" where
  "blocked e request w =
     (if blacklistActive w then
        (if blacklistLock w then None
         else Some (blacklist_loop e (blacklist w) request))
      else Some (Inr False))"

text \<open>handleRequest: \<open>None\<close> when the handler waits for the lock for ever.\<close>

definition handleRequest :: "env \<Rightarrow> request \<Rightarrow> world \<Rightarrow> (py_error option \<times> world) option" where
  "handleRequest e request w =
     (case blocked e request w of
        None \<Rightarrow> None
      | Some (Inl err) \<Rightarrow> Some (Some err, w\<lparr>blacklistLock := True\<rparr>)
      | Some (Inr True) \<Rightarrow> Some (send_client (Bytes forbidden) w)
      | Some (Inr False) \<Rightarrow>
          Some (if cacheActive w then
                  (case connectionObject request of
                     Inl err \<Rightarrow> (Some err, w)
                   | Inr key \<Rightarrow>
                       (case cache w key of
                          Some cachedObject \<Rightarrow> revalidate e request key cachedObject w
                        | None \<Rightarrow> fetch_new e request key w))
                else forward e request w))"

section \<open>handleConnection\<close>

definition not_implemented :: string where
  "not_implemented = ''HTTP/1.0 501 Not Implemented'' @ CRLF @ CRLF"

definition bad_request :: string where
  "bad_request = ''HTTP/1.0 400 Bad Request'' @ CRLF @ CRLF"

definition ok_reply :: string where
  "ok_reply = ''HTTP/1.0 200 OK'' @ CRLF @ CRLF"

text \<open>The \<^verbatim>\<open>match\<close> statement of lines 221 to 230.\<close>

definition dispatch :: "env \<Rightarrow> request \<Rightarrow> world \<Rightarrow> (py_error option \<times> world) option" where
  "dispatch e request w =
     (case r_type request of
        NOTIMPL \<Rightarrow> Some (send_client (Bytes not_implemented) w)
      | BADREQ \<Rightarrow> Some (send_client (Bytes bad_request) w)
      | COMMAND \<Rightarrow>
          (case r_path request of
             None \<Rightarrow> Some (Some AttributeError, w)
           | Some fullCommand \<Rightarrow>
               (case handleCommand fullCommand w of
                  None \<Rightarrow> None
                | Some (Some err, w1) \<Rightarrow> Some (Some err, w1)
                | Some (None, w1) \<Rightarrow> Some (send_client (Bytes ok_reply) w1)))
      | REGULAR \<Rightarrow> handleRequest e request w)"

text \<open>
  handleConnection: \<open>None\<close> when clientContact never returns or the handler
  waits for the lock for ever; otherwise the exception that ended the handler,
  if any, and the state it left.
  \<^verbatim>\<open>clientskt.close()\<close> is reached only when nothing was raised.
\<close>

definition handleConnection :: "env \<Rightarrow> world \<Rightarrow> (py_error option \<times> world) option" where
  "handleConnection e w =
     (case clientContact (client_recv w) [] of
        None \<Rightarrow> None
      | Some (Inl err) \<Rightarrow> Some (Some err, w)
      | Some (Inr message) \<Rightarrow>
          (case parseRequest e message of
             Inl err \<Rightarrow> Some (Some err, w)
           | Inr request \<Rightarrow>
               (case dispatch e request w of
                  None \<Rightarrow> None
                | Some (Some err, w1) \<Rightarrow> Some (Some err, w1)
                | Some (None, w1) \<Rightarrow> Some (None, w1\<lparr>client_closed := True\<rparr>))))"

text \<open>
  Lines 249 to 254, the globals at the start of the program, and line 264, a new
  client connection whose \<^verbatim>\<open>recv\<close> calls will return \<open>chunks\<close>.
\<close>

definition startup :: world where
  "startup =
     \<lparr>cache = Map.empty, blacklist = [], cacheActive = False, blacklistActive = False,
      blacklistLock = False, client_recv = [], client_sent = [], client_closed = False, origin_log = []\<rparr>"

definition accept :: "string list \<Rightarrow> world \<Rightarrow> world" where
  "accept chunks w = w\<lparr>client_recv := chunks, client_sent := [], client_closed := False\<rparr>"

section \<open>The standard library on plain inputs\<close>

text \<open>
  The theorems about all requests below hold for every \<open>env\<close>. The examples need
  one. \<open>urlparse_plain\<close> follows \<^verbatim>\<open>urlsplit\<close>, \<^verbatim>\<open>urlparse\<close> and the properties
  \<^verbatim>\<open>hostname\<close> and \<^verbatim>\<open>port\<close> of CPython's urllib.parse for a URL whose network
  location is ASCII and has no square bracket: leading control characters and
  spaces are stripped, tabs and line ends removed, the scheme is the lowered text
  before the first colon when it consists of scheme characters, the network
  location runs from \<^verbatim>\<open>//\<close> to the first of \<^verbatim>\<open>/?#\<close>, and the path ends at the
  first \<^verbatim>\<open>#\<close>, \<^verbatim>\<open>?\<close> or parameter. For a network location with a bracket or a
  byte above 7F the library checks an IPv6 literal or a Unicode normal form; this
  instance answers ValueError for all of them, which the library does for some
  only, and no example below has such a URL.
\<close>

definition ascii_lower :: "char \<Rightarrow> char" where
  "ascii_lower c =
     (case map_of (zip ''ABCDEFGHIJKLMNOPQRSTUVWXYZ'' ''abcdefghijklmnopqrstuvwxyz'') c of
        None \<Rightarrow> c
      | Some l \<Rightarrow> l)"

definition ascii_alpha :: "char \<Rightarrow> bool" where
  "ascii_alpha c = (let n = (of_char c :: nat) in (65 \<le> n \<and> n \<le> 90) \<or> (97 \<le> n \<and> n \<le> 122))"

definition ascii_digit :: "char \<Rightarrow> bool" where
  "ascii_digit c = (let n = (of_char c :: nat) in 48 \<le> n \<and> n \<le> 57)"

definition scheme_chars :: string where
  "scheme_chars = ''abcdefghijklmnopqrstuvwxyzABCDEFGHIJKLMNOPQRSTUVWXYZ0123456789+-.''"

definition uses_params :: "string list" where
  "uses_params = [[], ''ftp'', ''hdl'', ''prospero'', ''http'', ''imap'', ''https'', ''shttp'',
     ''rtsp'', ''rtsps'', ''rtspu'', ''sip'', ''sips'', ''mms'', ''sftp'', ''tel'']"

text \<open>\<^verbatim>\<open>s.partition(c)\<close> and \<^verbatim>\<open>s.rpartition(c)\<close>: before, found, after.\<close>

definition partition_str :: "string \<Rightarrow> char \<Rightarrow> string \<times> bool \<times> string" where
  "partition_str s c =
     (takeWhile (\<lambda>x. x \<noteq> c) s, c \<in> set s, drop 1 (dropWhile (\<lambda>x. x \<noteq> c) s))"

definition rpartition_str :: "string \<Rightarrow> char \<Rightarrow> string \<times> bool \<times> string" where
  "rpartition_str s c =
     (if c \<in> set s
      then (rev (drop 1 (dropWhile (\<lambda>x. x \<noteq> c) (rev s))), True, rev (takeWhile (\<lambda>x. x \<noteq> c) (rev s)))
      else ([], False, s))"

definition split_scheme :: "string \<Rightarrow> string \<times> string" where
  "split_scheme url =
     (let i = find_str url '':''
      in if 0 < i \<and> ascii_alpha (url ! 0) \<and> list_all (\<lambda>c. c \<in> set scheme_chars) (take (nat i) url)
         then (map ascii_lower (take (nat i) url), drop (nat i + 1) url)
         else ([], url))"

definition splitnetloc :: "string \<Rightarrow> string \<times> string" where
  "splitnetloc url =
     (if take 2 url = ''//''
      then (takeWhile (\<lambda>c. c \<notin> set ''/?#'') (drop 2 url), dropWhile (\<lambda>c. c \<notin> set ''/?#'') (drop 2 url))
      else ([], url))"

definition splitparams :: "string \<Rightarrow> string" where
  "splitparams url =
     (if CHR ''/'' \<in> set url
      then (case rpartition_str url (CHR ''/'') of
              (before, _, after) \<Rightarrow> before @ ''/'' @ takeWhile (\<lambda>c. c \<noteq> CHR '';'') after)
      else takeWhile (\<lambda>c. c \<noteq> CHR '';'') url)"

definition hostinfo :: "string \<Rightarrow> string \<times> string" where
  "hostinfo nl =
     (case rpartition_str nl (CHR ''@'') of
        (_, _, hi) \<Rightarrow> (case partition_str hi (CHR '':'') of (h, _, p) \<Rightarrow> (h, p)))"

definition hostname_of :: "string \<Rightarrow> string option" where
  "hostname_of nl =
     (let h = fst (hostinfo nl)
      in if h = [] then None
         else (case partition_str h (CHR ''%'') of
                 (a, percent, zone) \<Rightarrow>
                   Some (map ascii_lower a @ (if percent then ''%'' else []) @ zone)))"

definition int_of_digits :: "string \<Rightarrow> int" where
  "int_of_digits ds = foldl (\<lambda>a c. 10 * a + (int (of_char c) - 48)) 0 ds"

definition port_of :: "string \<Rightarrow> py_error + int option" where
  "port_of nl =
     (let p = snd (hostinfo nl)
      in if p = [] then Inr None
         else if \<not> list_all ascii_digit p then Inl ValueError
         else if int_of_digits p \<le> 65535 then Inr (Some (int_of_digits p))
         else Inl ValueError)"

definition path_of :: "string \<Rightarrow> string \<Rightarrow> string" where
  "path_of sch url =
     (if sch \<in> set uses_params \<and> CHR '';'' \<in> set url then splitparams url else url)"

definition strip_url :: "string \<Rightarrow> string" where
  "strip_url url =
     filter (\<lambda>c. c \<notin> set [CHR 0x09, CR, LF]) (dropWhile (\<lambda>c. (of_char c :: nat) \<le> 32) url)"

definition urlparse_plain :: "string \<Rightarrow> py_error + ParseResult" where
  "urlparse_plain url =
     (case split_scheme (strip_url url) of
        (sch, rest) \<Rightarrow>
          (case splitnetloc rest of
             (nl, url2) \<Rightarrow>
               if CHR ''['' \<in> set nl \<or> CHR '']'' \<in> set nl
                    \<or> list_ex (\<lambda>c. 128 \<le> (of_char c :: nat)) nl
               then Inl ValueError
               else Inr \<lparr>scheme = sch, netloc = nl,
                         path = path_of sch
                                  (takeWhile (\<lambda>c. c \<noteq> CHR ''?'') (takeWhile (\<lambda>c. c \<noteq> CHR ''#'') url2)),
                         hostname = hostname_of nl, port = port_of nl\<rparr>))"

text \<open>
  \<open>re_search_plain\<close> is \<^verbatim>\<open>re.search\<close> on an ASCII subject for a pattern made of
  ordinary characters, of \<^verbatim>\<open>.\<close> (any character but a newline) and of a backslash
  before a punctuation character (that character). A backslash that ends the
  pattern is \<^verbatim>\<open>re.error\<close>, and so is an opening parenthesis that is never closed.
  Every other pattern with one of \<^verbatim>\<open>^$*+?{}[]|()\<close> or a backslash before a letter
  or digit is outside this fragment: the instance answers \<^verbatim>\<open>re.error\<close> for all
  of them, which the library does for some only.
\<close>

datatype re_item = Lit char | AnyChar

fun re_items :: "string \<Rightarrow> py_error + re_item list" where
  "re_items [] = Inr []"
| "re_items (c # p) =
     (if c = CHR 0x5C then
        (case p of
           [] \<Rightarrow> Inl ReError
         | d # p' \<Rightarrow>
             if (of_char d :: nat) < 128 \<and> \<not> ascii_alpha d \<and> \<not> ascii_digit d
             then (case re_items p' of Inl err \<Rightarrow> Inl err | Inr items \<Rightarrow> Inr (Lit d # items))
             else Inl ReError)
      else if c \<in> set ''^$*+?{}[]|()'' then Inl ReError
      else (case re_items p of
              Inl err \<Rightarrow> Inl err
            | Inr items \<Rightarrow> Inr ((if c = CHR ''.'' then AnyChar else Lit c) # items)))"

fun match_here :: "re_item list \<Rightarrow> string \<Rightarrow> bool" where
  "match_here [] s = True"
| "match_here (i # items) [] = False"
| "match_here (Lit c # items) (d # s) = (c = d \<and> match_here items s)"
| "match_here (AnyChar # items) (d # s) = (d \<noteq> LF \<and> match_here items s)"

fun search_items :: "re_item list \<Rightarrow> string \<Rightarrow> bool" where
  "search_items items [] = match_here items []"
| "search_items items (d # s) = (match_here items (d # s) \<or> search_items items s)"

definition re_search_plain :: "string \<Rightarrow> string \<Rightarrow> py_error + bool" where
  "re_search_plain pattern s =
     (case re_items pattern of Inl err \<Rightarrow> Inl err | Inr items \<Rightarrow> Inr (search_items items s))"

definition py_env :: "string \<Rightarrow> (string \<Rightarrow> int \<Rightarrow> bool) \<Rightarrow> (string \<Rightarrow> int \<Rightarrow> string \<Rightarrow> string list) \<Rightarrow> env" where
  "py_env a c r =
     \<lparr>address = a, urlparse = urlparse_plain, re_search = re_search_plain,
      connect_ok = c, origin_reply = r\<rparr>"

section \<open>Inputs of the examples\<close>

text \<open>
  What parseRequest returns for \<^verbatim>\<open>GET http://example.com/index.html HTTP/1.0\r\n\r\n\<close>,
  the plain and the conditional GET that the proxy sends for it, a response with a
  \<^verbatim>\<open>Last-Modified\<close> header and a body that is not ASCII, and an origin that
  answers \<^verbatim>\<open>304 Not Modified\<close> to a request with \<^verbatim>\<open>If-Modified-Since:\<close> and the
  given chunks to any other.
\<close>

definition index_request :: request where
  "index_request =
     \<lparr>r_type = REGULAR, r_host = Some ''example.com'', r_port = Some 80,
      r_path = Some ''/index.html'', r_headers = Some []\<rparr>"

definition plain_get :: string where
  "plain_get = ''GET /index.html HTTP/1.0'' @ CRLF @ ''Host: example.com'' @ CRLF
     @ ''Connection: close'' @ CRLF @ CRLF"

definition conditional :: string where
  "conditional = ''GET /index.html HTTP/1.0'' @ CRLF @ ''Host: example.com'' @ CRLF
     @ ''Connection: close'' @ CRLF @ ''If-Modified-Since: Tue, 01 Jan 2025 00:00:00 GMT'' @ CRLF @ CRLF"

definition not_modified :: string where
  "not_modified = ''HTTP/1.0 304 Not Modified'' @ CRLF @ CRLF"

definition page :: string where
  "page = ''HTTP/1.0 200 OK'' @ CRLF @ ''Last-Modified: Tue, 01 Jan 2025 00:00:00 GMT'' @ CRLF
     @ CRLF @ ''caf'' @ [CHR 0xC3, CHR 0xA9]"

definition bare_page :: string where
  "bare_page = ''HTTP/1.0 200 OK'' @ CRLF @ CRLF @ ''hello''"

definition revalidating_origin :: "string list \<Rightarrow> string \<Rightarrow> int \<Rightarrow> string \<Rightarrow> string list" where
  "revalidating_origin chunks h p m =
     (if find_str m ''If-Modified-Since:'' = - 1 then chunks else [not_modified])"

section \<open>Evaluation and general facts\<close>

lemmas str_defs = CRLF_def startswith_def endswith_def find_str_def index_str_def slice_to_def
  slice_from_def char_at_def splitlines_def ascii_linebreak_def str_int_def
  unimplemented_methods_def match_method_def name_char_def match_header_name_def
  match_some_data_def rebuiltHeaders_def rejected_def list_get_def

lemmas lib_defs = ascii_lower_def ascii_alpha_def ascii_digit_def scheme_chars_def uses_params_def
  partition_str_def rpartition_str_def split_scheme_def splitnetloc_def splitparams_def
  hostinfo_def hostname_of_def int_of_digits_def port_of_def urlparse_plain_def path_of_def
  strip_url_def re_search_plain_def py_env_def

lemmas io_defs = decode_def encode_def cont_byte_def send_client_def set_add_def handleCommand_def
  str_operand_def str_port_def buildMessage_def connect_def exchange_def connectionObject_def
  conditional_get_def revalidate_def fetch_new_def forward_def forbidden_def blocked_def
  handleRequest_def not_implemented_def bad_request_def ok_reply_def dispatch_def
  handleConnection_def startup_def accept_def

lemmas ex_defs = index_request_def plain_get_def conditional_def not_modified_def page_def
  bare_page_def revalidating_origin_def

lemma split_str_nonempty: "split_str sep s \<noteq> []"
  by (induction s) (auto split: list.splits)

lemma split_str_first: "split_str sep s ! 0 = takeWhile (\<lambda>c. c \<noteq> sep) s"
  by (induction s) (auto split: list.splits simp: split_str_nonempty)

lemma split_str_append:
  "sep \<notin> set t \<Longrightarrow> split_str sep (t @ sep # s) = t # split_str sep s"
  by (induction t) (auto split: list.splits simp: split_str_nonempty)

text \<open>
  Two facts about one step of the header loop. A line that is a name and a colon
  and nothing more raises IndexError. A line without a colon is rejected, however
  its last character is written: \<^verbatim>\<open>find\<close> gives \<open>-1\<close>, the name is the line
  without its last character, and when that matches, the line begins with a
  character of a name, which \<^verbatim>\<open>message[0]\<close> then is, and not a space. So the
  slice \<^verbatim>\<open>message[:-1]\<close> decides nothing that depends on how many bytes the last
  character has in the representation.
\<close>

lemma find_from_first:
  "c \<notin> set s \<Longrightarrow> find_from (s @ c # t) [c] i = int (i + length s)"
  by (induction s arbitrary: i) (auto simp: startswith_def)

lemma find_from_absent: "c \<notin> set s \<Longrightarrow> find_from s [c] i = - 1"
  by (induction s arbitrary: i) (auto simp: startswith_def)

lemma header_loop_colon_last:
  assumes "match_header_name name" and "CHR '':'' \<notin> set name"
  shows "header_loop ((name @ '':'') # rest) headers = Inl IndexError"
proof -
  have found: "find_str (name @ '':'') '':'' = int (length name)"
    using find_from_first [OF assms(2), of "[]" 0] by (simp add: find_str_def)
  have "name @ '':'' \<noteq> ''HTTP/1.0''"
  proof
    assume "name @ '':'' = ''HTTP/1.0''"
    then have "last (name @ '':'') = last ''HTTP/1.0''"
      by (rule arg_cong)
    then show False
      by simp
  qed
  then show ?thesis
    using assms(1) by (simp add: found slice_to_def char_at_def)
qed

lemma name_start:
  assumes "match_header_name t" and "t = take n message"
  shows "message \<noteq> [] \<and> name_char (message ! 0)"
proof -
  let ?u = "if t \<noteq> [] \<and> last t = LF then butlast t else t"
  from assms(1) have u: "?u \<noteq> []" "list_all name_char ?u"
    by (simp_all add: match_header_name_def Let_def)
  then have t: "t \<noteq> []"
    by (auto split: if_splits)
  have "hd ?u = hd t"
    using u(1) by (cases t) (auto split: if_splits)
  moreover have "name_char (hd ?u)"
    using u by (cases ?u) auto
  moreover have "hd t = message ! 0" "message \<noteq> []"
    using t assms(2) by (cases message; cases n; simp)+
  ultimately show ?thesis by simp
qed

lemma header_loop_no_colon:
  assumes "CHR '':'' \<notin> set message"
    and "message \<noteq> []" and "message \<noteq> '' ''" and "message \<noteq> ''HTTP/1.0''"
  shows "header_loop (message # rest) headers = Inr None"
proof (cases "match_header_name (slice_to message (- 1))")
  case False
  with assms show ?thesis
    by (simp add: find_str_def find_from_absent)
next
  case True
  then have "name_char (message ! 0)"
    using name_start [of "slice_to message (- 1)" "nat (int (length message) - 1)" message]
    by (simp add: slice_to_def)
  then have "message ! 0 \<noteq> SP"
    by (auto simp: name_char_def)
  with assms True show ?thesis
    by (simp add: find_str_def find_from_absent char_at_def)
qed

lemma urlparse_plain_example:
  "urlparse_plain ''http://example.com/'' =
     Inr \<lparr>scheme = ''http'', netloc = ''example.com'', path = ''/'',
          hostname = Some ''example.com'', port = Inr None\<rparr>"
  by (simp add: lib_defs str_defs)

lemma urlparse_plain_command:
  "urlparse_plain ''http://localhost/proxy/cache/enable'' =
     Inr \<lparr>scheme = ''http'', netloc = ''localhost'', path = ''/proxy/cache/enable'',
          hostname = Some ''localhost'', port = Inr None\<rparr>"
  by (simp add: lib_defs str_defs)

lemma urlparse_plain_no_scheme:
  "urlparse_plain ''//localhost/proxy/cache/enable'' =
     Inr \<lparr>scheme = [], netloc = ''localhost'', path = ''/proxy/cache/enable'',
          hostname = Some ''localhost'', port = Inr None\<rparr>"
  by (simp add: lib_defs str_defs)

text \<open>
  A run of clientContact that returns has either something left to receive or a
  message that ends with the empty line: once the peer has closed, \<^verbatim>\<open>recv\<close>
  returns \<^verbatim>\<open>b''\<close>, the message stays as it is and the loop goes on.
\<close>

lemma clientContact_returns:
  "clientContact chunks m = Some y \<Longrightarrow> chunks \<noteq> [] \<or> endswith m (CRLF @ CRLF)"
proof (rule clientContact.raw_induct
    [where P = "\<lambda>chunks m y. chunks \<noteq> [] \<or> endswith m (CRLF @ CRLF)"])
  fix f :: "string list \<Rightarrow> string \<Rightarrow> (py_error + string) option" and chunks m y
  assume IH: "\<And>chunks' m' y'. f chunks' m' = Some y' \<Longrightarrow> chunks' \<noteq> [] \<or> endswith m' (CRLF @ CRLF)"
    and step: "(if endswith m (CRLF @ CRLF) then Some (Inr m)
      else case decode (case chunks of [] \<Rightarrow> [] | c # cs \<Rightarrow> c) of
           Inl err \<Rightarrow> Some (Inl err)
           | Inr s \<Rightarrow> f (drop 1 chunks) (m @ s)) = Some y"
  show "chunks \<noteq> [] \<or> endswith m (CRLF @ CRLF)"
  proof (cases "chunks = [] \<and> \<not> endswith m (CRLF @ CRLF)")
    case True
    with step have "f [] m = Some y"
      by (simp add: decode_def)
    from IH [OF this] True show ?thesis
      by simp
  next
    case False
    then show ?thesis by blast
  qed
qed

lemma clientContact_closed:
  "\<not> endswith m (CRLF @ CRLF) \<Longrightarrow> clientContact [] m = None"
  using clientContact_returns [of "[]" m] by (cases "clientContact [] m") auto

lemma index_request_parsed:
  "parseRequest (py_env ''localhost'' c r)
     (''GET http://example.com/index.html HTTP/1.0'' @ CRLF @ CRLF) = Inr index_request"
  by (simp add: index_request_def parseRequest_def lib_defs str_defs Let_def cong: let_weak_cong)


text \<open>
  With blocklisting on and the lock held, handleRequest never returns, whatever
  the request and the blocklist.
\<close>

lemma handleRequest_lock_held:
  "blacklistActive w \<Longrightarrow> blacklistLock w \<Longrightarrow> handleRequest e request w = None"
  by (simp add: handleRequest_def blocked_def)

section \<open>The claims about parseRequest\<close>

text \<open>
  C1. The claim: parsing is total, every raw input is given one of the four
  classifications and parseRequest fails in no other way, also for a URL port that
  is not a number and for a header line that ends at its colon. The code raises
  on both inputs. In \<^verbatim>\<open>GET http://example.com/ HTTP/1.0\r\nHost:\r\n\r\n\<close> the name
  \<^verbatim>\<open>Host\<close> matches, so line 103 reads \<^verbatim>\<open>message[colonIndex+1]\<close>, one past the end
  of the line: IndexError. In \<^verbatim>\<open>GET http://example.com:abc/ HTTP/1.0\r\n\r\n\<close> the
  property \<^verbatim>\<open>splitURL.port\<close> of line 89 raises ValueError.
\<close>

theorem parseRequest_raises:
  "parseRequest (py_env ''localhost'' (\<lambda>h p. True) (\<lambda>h p m. []))
     (''GET http://example.com/ HTTP/1.0'' @ CRLF @ ''Host:'' @ CRLF @ CRLF) = Inl IndexError
   \<and> parseRequest (py_env ''localhost'' (\<lambda>h p. True) (\<lambda>h p m. []))
     (''GET http://example.com:abc/ HTTP/1.0'' @ CRLF @ CRLF) = Inl ValueError"
  by (simp add: parseRequest_def lib_defs str_defs Let_def cong: let_weak_cong)

text \<open>
  C2. The claim: every raw request whose first space-separated token is not
  \<^verbatim>\<open>GET\<close> is classified NotImplemented. The request
  \<^verbatim>\<open>FOO http://example.com/ HTTP/1.0\r\n\r\n\<close> is classified BadRequest: line 80
  answers NotImplemented for the eight method names only, and line 82 answers
  BadRequest for every other first token that is not \<^verbatim>\<open>GET\<close>.
\<close>

theorem parseRequest_first_token_counterexample:
  "takeWhile (\<lambda>c. c \<noteq> SP) (''FOO http://example.com/ HTTP/1.0'' @ CRLF @ CRLF) = ''FOO''
   \<and> parseRequest (py_env ''localhost'' (\<lambda>h p. True) (\<lambda>h p m. []))
        (''FOO http://example.com/ HTTP/1.0'' @ CRLF @ CRLF) = Inr (rejected BADREQ)
   \<and> rejected BADREQ \<noteq> rejected NOTIMPL"
  by (simp add: parseRequest_def str_defs Let_def cong: let_weak_cong)

text \<open>
  C2, amended. For every environment and every raw request: when the text before
  the first space begins with one of HEAD, OPTIONS, TRACE, PUT, DELETE, POST, PATCH
  and CONNECT, parseRequest returns exactly NotImplemented, whatever follows; when
  it does not and is not \<^verbatim>\<open>GET\<close> either, parseRequest returns exactly BadRequest.
\<close>

theorem parseRequest_first_token:
  "(match_method (takeWhile (\<lambda>c. c \<noteq> SP) message)
      \<longrightarrow> parseRequest e message = Inr (rejected NOTIMPL))
   \<and> (\<not> match_method (takeWhile (\<lambda>c. c \<noteq> SP) message)
        \<and> takeWhile (\<lambda>c. c \<noteq> SP) message \<noteq> ''GET''
      \<longrightarrow> parseRequest e message = Inr (rejected BADREQ))"
  by (simp add: parseRequest_def Let_def split_str_first)

theorem parseRequest_first_token_witness:
  "parseRequest (py_env ''localhost'' (\<lambda>h p. True) (\<lambda>h p m. []))
     (''POST http://example.com/ HTTP/1.0'' @ CRLF @ CRLF) = Inr (rejected NOTIMPL)
   \<and> parseRequest (py_env ''localhost'' (\<lambda>h p. True) (\<lambda>h p m. []))
     (''get http://example.com/ HTTP/1.0'' @ CRLF @ CRLF) = Inr (rejected BADREQ)"
proof -
  have post: "match_method (takeWhile (\<lambda>c. c \<noteq> SP) (''POST http://example.com/ HTTP/1.0'' @ CRLF @ CRLF))"
    by (simp add: match_method_def unimplemented_methods_def startswith_def)
  have lower: "\<not> match_method (takeWhile (\<lambda>c. c \<noteq> SP) (''get http://example.com/ HTTP/1.0'' @ CRLF @ CRLF))
      \<and> takeWhile (\<lambda>c. c \<noteq> SP) (''get http://example.com/ HTTP/1.0'' @ CRLF @ CRLF) \<noteq> ''GET''"
    by (simp add: match_method_def unimplemented_methods_def startswith_def)
  from post lower show ?thesis
    using parseRequest_first_token by blast
qed

text \<open>
  C10. The claim: every raw GET request whose URL path begins with \<^verbatim>\<open>/proxy/\<close>
  and whose parsed host is the proxy's address is classified Command and never
  BadRequest, whatever its header lines. Two requests to a proxy at
  \<^verbatim>\<open>localhost\<close> whose URL has such a path and host are classified BadRequest, by
  tests that also run before the command check of line 91:
  \<^verbatim>\<open>GET http://localhost/proxy/cache/enable HTTP/1.1\r\n\r\n\<close> by the test of the
  version on line 82, and \<^verbatim>\<open>GET //localhost/proxy/cache/enable HTTP/1.0\r\n\r\n\<close>,
  whose URL has no scheme, by the test of line 85.
\<close>

theorem parseRequest_command_counterexample:
  "urlparse (py_env ''localhost'' (\<lambda>h p. True) (\<lambda>h p m. [])) ''http://localhost/proxy/cache/enable'' =
     Inr \<lparr>scheme = ''http'', netloc = ''localhost'', path = ''/proxy/cache/enable'',
          hostname = Some (address (py_env ''localhost'' (\<lambda>h p. True) (\<lambda>h p m. []))), port = Inr None\<rparr>
   \<and> parseRequest (py_env ''localhost'' (\<lambda>h p. True) (\<lambda>h p m. []))
        (''GET http://localhost/proxy/cache/enable HTTP/1.1'' @ CRLF @ CRLF) = Inr (rejected BADREQ)
   \<and> urlparse (py_env ''localhost'' (\<lambda>h p. True) (\<lambda>h p m. [])) ''//localhost/proxy/cache/enable'' =
     Inr \<lparr>scheme = [], netloc = ''localhost'', path = ''/proxy/cache/enable'',
          hostname = Some (address (py_env ''localhost'' (\<lambda>h p. True) (\<lambda>h p m. []))), port = Inr None\<rparr>
   \<and> parseRequest (py_env ''localhost'' (\<lambda>h p. True) (\<lambda>h p m. []))
        (''GET //localhost/proxy/cache/enable HTTP/1.0'' @ CRLF @ CRLF) = Inr (rejected BADREQ)"
  by (simp add: parseRequest_def urlparse_plain_command urlparse_plain_no_scheme py_env_def
      str_defs Let_def cong: let_weak_cong)

text \<open>
  C10, amended. For every environment and every raw request that begins with
  \<^verbatim>\<open>GET\<close>, a space, a URL without a space, a space and \<^verbatim>\<open>HTTP/1.0\<close>: when
  \<^verbatim>\<open>urlparse\<close> gives the URL a scheme, a network location, a port that is absent
  or valid, a path that begins with \<^verbatim>\<open>/proxy/\<close> and the proxy's address as host,
  parseRequest returns Command with the rest of the path and an empty dictionary
  of headers, whatever follows \<^verbatim>\<open>HTTP/1.0\<close>: the header lines are not looked at.
\<close>

theorem parseRequest_command:
  assumes "message = ''GET '' @ url @ '' HTTP/1.0'' @ rest"
    and "SP \<notin> set url"
    and "urlparse e url = Inr u"
    and "scheme u \<noteq> []"
    and "netloc u \<noteq> []"
    and "port u = Inr p"
    and "take 7 (path u) = ''/proxy/''"
    and "hostname u = Some (address e)"
  shows "parseRequest e message =
           Inr \<lparr>r_type = COMMAND, r_host = None, r_port = None,
                r_path = Some (drop 7 (path u)), r_headers = Some []\<rparr>"
proof -
  define ts where "ts = split_str SP (''HTTP/1.0'' @ rest)"
  have ts_first: "take 8 (ts ! 0) = ''HTTP/1.0''"
    unfolding ts_def split_str_first by simp
  have "ts \<noteq> []"
    unfolding ts_def by (rule split_str_nonempty)
  then obtain version more where ts: "ts = version # more"
    by (cases ts) auto
  have "split_str SP (''GET'' @ SP # url @ SP # ''HTTP/1.0'' @ rest)
          = ''GET'' # split_str SP (url @ SP # ''HTTP/1.0'' @ rest)"
    by (rule split_str_append) simp
  also have "split_str SP (url @ SP # ''HTTP/1.0'' @ rest) = url # ts"
    unfolding ts_def using assms(2) by (rule split_str_append)
  finally have tokens: "split_str SP message = ''GET'' # url # version # more"
    using assms(1) ts by simp
  have version: "take 8 version = ''HTTP/1.0''"
    using ts_first ts by simp
  have get: "\<not> match_method ''GET''"
    by (simp add: match_method_def unimplemented_methods_def startswith_def)
  have path: "path u \<noteq> []"
    using assms(7) by auto
  show ?thesis
    unfolding parseRequest_def tokens Let_def
    using get version path assms(3-8) by simp
qed

theorem parseRequest_command_witness:
  "parseRequest (py_env ''localhost'' (\<lambda>h p. True) (\<lambda>h p m. []))
     (''GET http://localhost/proxy/cache/enable HTTP/1.0'' @ CRLF @ ''no colon here'' @ CRLF
        @ ''Host:'' @ CRLF @ CRLF)
   = Inr \<lparr>r_type = COMMAND, r_host = None, r_port = None,
          r_path = Some ''cache/enable'', r_headers = Some []\<rparr>"
  using parseRequest_command
    [where e = "py_env ''localhost'' (\<lambda>h p. True) (\<lambda>h p m. [])"
       and url = "''http://localhost/proxy/cache/enable''"
       and rest = "CRLF @ ''no colon here'' @ CRLF @ ''Host:'' @ CRLF @ CRLF"
       and u = "\<lparr>scheme = ''http'', netloc = ''localhost'', path = ''/proxy/cache/enable'',
                  hostname = Some ''localhost'', port = Inr None\<rparr>"
       and p = None, OF refl]
  by (simp add: py_env_def urlparse_plain_command)

section \<open>The claims about a connection\<close>

text \<open>
  C3. The claim: with caching and blocklisting disabled, the request
  \<^verbatim>\<open>GET http://example.com/ HTTP/1.0\r\nHost: example.com\r\n\r\n\<close> makes the proxy
  send to example.com:80 exactly
  \<^verbatim>\<open>GET / HTTP/1.0\r\nHost: example.com\r\nConnection: close\r\n\r\n\<close>, with no second
  Host header, and relay the origin's response unchanged. The code connects to
  example.com:80 and relays the response unchanged, whatever the origin answers,
  but the bytes it sends have the Host header twice: buildMessage writes the Host
  line from the URL and then every header of the client but \<^verbatim>\<open>Connection\<close>, so
  the client's own Host header follows.
\<close>

theorem handleConnection_host_twice:
  "handleConnection (py_env ''localhost'' (\<lambda>h p. True) r)
     (accept [''GET http://example.com/ HTTP/1.0'' @ CRLF @ ''Host: example.com'' @ CRLF @ CRLF] startup)
   = Some (None,
       (accept [''GET http://example.com/ HTTP/1.0'' @ CRLF @ ''Host: example.com'' @ CRLF @ CRLF] startup)
       \<lparr>client_sent :=
          serverContact (r ''example.com'' 80
            (''GET / HTTP/1.0'' @ CRLF @ ''Host: example.com'' @ CRLF @ ''Connection: close'' @ CRLF
               @ ''Host: example.com'' @ CRLF @ CRLF)) [],
        client_closed := True,
        origin_log :=
          [Connect ''example.com'' 80,
           SendAll (''GET / HTTP/1.0'' @ CRLF @ ''Host: example.com'' @ CRLF @ ''Connection: close'' @ CRLF
                      @ ''Host: example.com'' @ CRLF @ CRLF)]\<rparr>)
   \<and> ''GET / HTTP/1.0'' @ CRLF @ ''Host: example.com'' @ CRLF @ ''Connection: close'' @ CRLF
        @ ''Host: example.com'' @ CRLF @ CRLF
      \<noteq> ''GET / HTTP/1.0'' @ CRLF @ ''Host: example.com'' @ CRLF @ ''Connection: close'' @ CRLF @ CRLF"
  by (simp add: clientContact.simps parseRequest_def io_defs lib_defs str_defs Let_def
      cong: let_weak_cong)

text \<open>
  C6. The claim: for every command path, also \<^verbatim>\<open>cache\<close>, \<^verbatim>\<open>unknown/x\<close> and
  \<^verbatim>\<open>blocklist/add\<close> with no pattern, handleCommand ignores what it does not
  recognise without failing and the client receives \<^verbatim>\<open>HTTP/1.0 200 OK\r\n\r\n\<close>.
  \<^verbatim>\<open>unknown/x\<close> is ignored. For \<^verbatim>\<open>cache\<close> line 121 reads \<^verbatim>\<open>commandRequest[1]\<close>
  of a list of one element, and for \<^verbatim>\<open>blocklist/add\<close> line 136 reads
  \<^verbatim>\<open>commandRequest[2]\<close> of a list of two: IndexError, the second with
  \<^verbatim>\<open>blacklistLock\<close> held, which stays held (and when it is held already, line
  135 never returns). The request
  \<^verbatim>\<open>GET http://localhost/proxy/cache HTTP/1.0\r\n\r\n\<close> ends the handler with that
  exception: the client is sent nothing and its socket is not closed by line 231.
\<close>

theorem handleCommand_truncated:
  "handleCommand ''unknown/x'' w = Some (None, w)
   \<and> handleCommand ''cache'' w = Some (Some IndexError, w)
   \<and> handleCommand ''blocklist/add'' w =
        (if blacklistLock w then None else Some (Some IndexError, w\<lparr>blacklistLock := True\<rparr>))
   \<and> handleConnection (py_env ''localhost'' (\<lambda>h p. True) (\<lambda>h p m. []))
        (accept [''GET http://localhost/proxy/cache HTTP/1.0'' @ CRLF @ CRLF] startup)
      = Some (Some IndexError,
          accept [''GET http://localhost/proxy/cache HTTP/1.0'' @ CRLF @ CRLF] startup)
   \<and> client_sent (accept [''GET http://localhost/proxy/cache HTTP/1.0'' @ CRLF @ CRLF] startup) = []"
  by (simp add: clientContact.simps parseRequest_def io_defs lib_defs str_defs Let_def
      cong: let_weak_cong)

text \<open>
  C7. The claim: when the peer closes the connection before \<^verbatim>\<open>\r\n\r\n\<close> has
  been received, the handler terminates and the client receives the 400 reply.
  A client that sends \<^verbatim>\<open>GET http://example.com/ HTTP/1.0\r\n\<close> and closes: the
  loop of clientContact (lines 67 and 68) appends the empty result of
  \<^verbatim>\<open>recv\<close> for ever, so handleConnection never returns and nothing is sent.
  serverContact, its sibling, leaves its loop on an empty \<^verbatim>\<open>recv\<close> (line 53).
\<close>

theorem handleConnection_never_returns:
  "handleConnection (py_env ''localhost'' (\<lambda>h p. True) (\<lambda>h p m. []))
     (accept [''GET http://example.com/ HTTP/1.0'' @ CRLF] startup) = None"
proof -
  have "clientContact [''GET http://example.com/ HTTP/1.0'' @ CRLF] []
          = clientContact [] (''GET http://example.com/ HTTP/1.0'' @ CRLF)"
    by (subst clientContact.simps) (simp add: decode_def endswith_def CRLF_def)
  also have "\<dots> = None"
    by (rule clientContact_closed) (simp add: endswith_def CRLF_def)
  finally show ?thesis
    by (simp add: handleConnection_def accept_def)
qed

section \<open>The claims about handleRequest\<close>




text \<open>
  C9. The claim: when caching is enabled and the cached entry of the requested
  key has no \<^verbatim>\<open>Last-Modified\<close> header, revalidation still sends a conditional GET
  to the origin, with a malformed \<^verbatim>\<open>If-Modified-Since\<close> header, and does not fail
  before a request is sent. With the entry \<^verbatim>\<open>HTTP/1.0 200 OK\r\n\r\nhello\<close> cached
  for example.com:80/index.html, line 186 connects and line 187 raises ValueError
  in \<^verbatim>\<open>cachedObject.index('Last-Modified:')\<close> while the argument of \<^verbatim>\<open>sendall\<close> is
  built: the log has the connection and no request.
\<close>

theorem revalidate_without_last_modified_counterexample:
  "handleRequest
     (py_env ''localhost'' (\<lambda>h p. True) (revalidating_origin [bare_page]))
     index_request
     (startup\<lparr>cacheActive := True, cache := [''example.com:80/index.html'' \<mapsto> bare_page]\<rparr>)
   = Some (Some ValueError,
      startup\<lparr>cacheActive := True, cache := [''example.com:80/index.html'' \<mapsto> bare_page],
               origin_log := [Connect ''example.com'' 80]\<rparr>)"
  by (simp add: ex_defs io_defs lib_defs str_defs Let_def cong: let_weak_cong)

text \<open>
  C9, amended. For every environment, state and request that the blocklist
  check of lines 170 to 177 lets through: when caching is enabled, the cached entry of the key \<^verbatim>\<open>host:port\<close> followed by
  the path does not contain \<^verbatim>\<open>Last-Modified:\<close> and the origin accepts the
  connection, handleRequest connects to the origin and then raises ValueError
  before any request is sent: nothing is sent to the origin or to the client and
  the cache stays as it is.
\<close>

theorem revalidate_without_last_modified:
  assumes "cacheActive w"
    and "blocked e request w = Some (Inr False)"
    and "r_host request = Some h" and "r_port request = Some p" and "r_path request = Some pa"
    and "cache w (h @ '':'' @ str_int p @ pa) = Some cachedObject"
    and "find_str cachedObject ''Last-Modified:'' = - 1"
    and "connect_ok e h p"
  shows "handleRequest e request w =
           Some (Some ValueError, w\<lparr>origin_log := origin_log w @ [Connect h p]\<rparr>)"
  using assms
  by (simp add: handleRequest_def connectionObject_def str_operand_def str_port_def revalidate_def
      connect_def conditional_get_def index_str_def)

theorem revalidate_without_last_modified_witness:
  "handleRequest
     (py_env ''localhost'' (\<lambda>h p. True) (\<lambda>h p m. [not_modified]))
     index_request
     (startup\<lparr>cacheActive := True,
        cache := [''example.com:80/index.html'' \<mapsto> ''HTTP/1.0 200 OK'' @ CRLF @ ''Content-Type: text/plain'' @ CRLF @ CRLF @ ''hi''],
        client_sent := ''earlier''\<rparr>)
   = Some (Some ValueError,
      startup\<lparr>cacheActive := True,
        cache := [''example.com:80/index.html'' \<mapsto> ''HTTP/1.0 200 OK'' @ CRLF @ ''Content-Type: text/plain'' @ CRLF @ CRLF @ ''hi''],
        client_sent := ''earlier'',
        origin_log := [Connect ''example.com'' 80]\<rparr>)"
proof -
  let ?e = "py_env ''localhost'' (\<lambda>h p. True) (\<lambda>h p m. [not_modified])"
  let ?w = "startup\<lparr>cacheActive := True,
        cache := [''example.com:80/index.html'' \<mapsto> ''HTTP/1.0 200 OK'' @ CRLF @ ''Content-Type: text/plain'' @ CRLF @ CRLF @ ''hi''],
        client_sent := ''earlier''\<rparr>"
  have a1: "cacheActive ?w" by (simp add: startup_def)
  have a2: "blocked ?e index_request ?w = Some (Inr False)" by (simp add: blocked_def startup_def)
  have a3: "r_host index_request = Some ''example.com''" "r_port index_request = Some 80"
    "r_path index_request = Some ''/index.html''"
    by (simp_all add: index_request_def)
  have a6: "cache ?w (''example.com'' @ '':'' @ str_int 80 @ ''/index.html'')
      = Some (''HTTP/1.0 200 OK'' @ CRLF @ ''Content-Type: text/plain'' @ CRLF @ CRLF @ ''hi'')"
    by (simp add: startup_def str_int_def)
  have a7: "find_str (''HTTP/1.0 200 OK'' @ CRLF @ ''Content-Type: text/plain'' @ CRLF @ CRLF @ ''hi'')
      ''Last-Modified:'' = - 1"
    by (simp add: str_defs)
  have a8: "connect_ok ?e ''example.com'' 80" by (simp add: py_env_def)
  show ?thesis
    using revalidate_without_last_modified [OF a1 a2 a3 a6 a7 a8]
    by (simp add: startup_def)
qed

text \<open>
  C5. The claim: when the revalidation of a cached key is answered with neither
  \<^verbatim>\<open>304 Not Modified\<close> nor \<^verbatim>\<open>200 OK\<close>, the stale entry is deleted and the fresh
  response is sent to the client. With \<open>page\<close> cached for
  example.com:80/index.html and an origin that answers
  \<^verbatim>\<open>HTTP/1.0 404 Not Found\r\n\r\n\<close>: the conditional GET is sent and the entry is
  deleted (line 194), and then line 198 calls \<^verbatim>\<open>clientskt.sendall(response)\<close> with
  the decoded \<^verbatim>\<open>str\<close> of line 188, which raises TypeError: the client is sent
  nothing. Lines 190 and 207 send \<^verbatim>\<open>bytes\<close>.
\<close>

theorem revalidate_other_status:
  "handleRequest
     (py_env ''localhost'' (\<lambda>h p. True) (\<lambda>h p m. [''HTTP/1.0 404 Not Found'' @ CRLF @ CRLF]))
     index_request
     (startup\<lparr>cacheActive := True, cache := [''example.com:80/index.html'' \<mapsto> page]\<rparr>)
   = Some (Some TypeError,
      startup\<lparr>cacheActive := True, cache := Map.empty, client_sent := [],
               origin_log := [Connect ''example.com'' 80, SendAll conditional]\<rparr>)"
  by (simp add: ex_defs io_defs lib_defs str_defs Let_def cong: let_weak_cong)

text \<open>
  C4. The claim: with caching enabled, for every request whose origin fetch
  returns a 200 OK response with a body, a later request for the same host, port
  and path whose revalidation is answered \<^verbatim>\<open>304 Not Modified\<close> gives the client
  the first response byte for byte, also when the body has bytes that are no
  text, and leaves the cache entry as it is. Two origins that answer
  \<^verbatim>\<open>304 Not Modified\<close> to every conditional GET. The first returns
  \<^verbatim>\<open>HTTP/1.0 200 OK\r\n\r\nhello\<close>, which is cached; at the second request line 187
  raises ValueError, there being no \<^verbatim>\<open>Last-Modified:\<close> in the entry, and the
  client is sent nothing. The second returns a 200 OK response with a
  \<^verbatim>\<open>Last-Modified\<close> header and the body FF D8: line 203 decodes the response
  before anything is sent or stored and raises UnicodeDecodeError, so this client
  is sent nothing either and no entry is made.
\<close>

theorem cache_round_trip_counterexample:
  "handleRequest (py_env ''localhost'' (\<lambda>h p. True) (revalidating_origin [bare_page]))
      index_request (startup\<lparr>cacheActive := True\<rparr>)
   = Some (None, startup\<lparr>cacheActive := True,
         cache := [''example.com:80/index.html'' \<mapsto> bare_page],
         client_sent := bare_page,
         origin_log := [Connect ''example.com'' 80, SendAll plain_get]\<rparr>)
   \<and> handleRequest (py_env ''localhost'' (\<lambda>h p. True) (revalidating_origin [bare_page]))
      index_request
      (startup\<lparr>cacheActive := True,
         cache := [''example.com:80/index.html'' \<mapsto> bare_page],
         client_sent := [], origin_log := []\<rparr>)
   = Some (Some ValueError, startup\<lparr>cacheActive := True,
         cache := [''example.com:80/index.html'' \<mapsto> bare_page],
         client_sent := [], origin_log := [Connect ''example.com'' 80]\<rparr>)
   \<and> handleRequest (py_env ''localhost'' (\<lambda>h p. True)
        (revalidating_origin
           [''HTTP/1.0 200 OK'' @ CRLF @ ''Last-Modified: Tue, 01 Jan 2025 00:00:00 GMT'' @ CRLF @ CRLF
              @ [CHR 0xFF, CHR 0xD8]]))
      index_request (startup\<lparr>cacheActive := True\<rparr>)
   = Some (Some UnicodeDecodeError, startup\<lparr>cacheActive := True,
         origin_log := [Connect ''example.com'' 80, SendAll plain_get]\<rparr>)"
  by (simp add: ex_defs io_defs lib_defs str_defs Let_def cong: let_weak_cong)

text \<open>
  C4, amended. For every state with caching enabled and every request that the
  blocklist check of lines 170 to 177 lets through and whose key is not yet
  cached: when the origin's response to the
  plain GET is well-formed UTF-8, contains \<^verbatim>\<open>200 OK\<close> and contains
  \<^verbatim>\<open>Last-Modified:\<close> with at least one line after it, the client is sent that
  response and it is stored under the key; and when later, with that entry in
  the cache, the answer to the conditional GET (which carries the first line after
  \<^verbatim>\<open>Last-Modified:\<close>) is well-formed UTF-8 and contains \<^verbatim>\<open>304 Not Modified\<close>, the
  client is sent the first response byte for byte and the cache is unchanged.
  The bytes of a response that is not well-formed UTF-8 are left out.
\<close>

theorem cache_round_trip:
  assumes "cacheActive w"
    and "blocked e1 request w = Some (Inr False)"
    and "blocked e2 request w = Some (Inr False)"
    and "r_host request = Some h" and "r_port request = Some p"
    and "r_path request = Some pa" and "r_headers request = Some hs"
    and "cache w (h @ '':'' @ str_int p @ pa) = None"
    and "connect_ok e1 h p" and "connect_ok e2 h p"
    and "get = ''GET '' @ pa @ '' HTTP/1.0'' @ CRLF @ ''Host: '' @ h @ CRLF
                 @ ''Connection: close'' @ CRLF @ header_lines hs @ CRLF"
    and "serverContact (origin_reply e1 h p get) [] = original"
    and "utf8_wellformed (map of_char original)"
    and "find_str original ''200 OK'' \<noteq> - 1"
    and "find_str original ''Last-Modified:'' \<noteq> - 1"
    and "splitlines (slice_from original (find_str original ''Last-Modified:'' + 14)) = since # others"
    and "cget = ''GET '' @ pa @ '' HTTP/1.0'' @ CRLF @ ''Host: '' @ h @ CRLF
                 @ ''Connection: close'' @ CRLF @ ''If-Modified-Since:'' @ since @ CRLF @ CRLF"
    and "serverContact (origin_reply e2 h p cget) [] = reply"
    and "utf8_wellformed (map of_char reply)"
    and "find_str reply ''304 Not Modified'' \<noteq> - 1"
  shows "handleRequest e1 request w =
           Some (None, w\<lparr>cache := (cache w)(h @ '':'' @ str_int p @ pa \<mapsto> original),
                     client_sent := client_sent w @ original,
                     origin_log := origin_log w @ [Connect h p, SendAll get]\<rparr>)
         \<and> handleRequest e2 request
             (w\<lparr>cache := (cache w)(h @ '':'' @ str_int p @ pa \<mapsto> original),
                client_sent := sent, origin_log := log\<rparr>) =
           Some (None, w\<lparr>cache := (cache w)(h @ '':'' @ str_int p @ pa \<mapsto> original),
                     client_sent := sent @ original,
                     origin_log := log @ [Connect h p, SendAll cget]\<rparr>)"
proof
  show "handleRequest e1 request w =
           Some (None, w\<lparr>cache := (cache w)(h @ '':'' @ str_int p @ pa \<mapsto> original),
                     client_sent := client_sent w @ original,
                     origin_log := origin_log w @ [Connect h p, SendAll get]\<rparr>)"
    using assms(1,2,4-9,11-14)
    by (simp add: handleRequest_def connectionObject_def str_operand_def str_port_def fetch_new_def
        connect_def buildMessage_def exchange_def encode_def decode_def send_client_def)
next
  have "blocked e2 request (w\<lparr>cache := (cache w)(h @ '':'' @ str_int p @ pa \<mapsto> original),
                client_sent := sent, origin_log := log\<rparr>) = Some (Inr False)"
    using assms(3) by (simp add: blocked_def split: if_splits)
  then show "handleRequest e2 request
             (w\<lparr>cache := (cache w)(h @ '':'' @ str_int p @ pa \<mapsto> original),
                client_sent := sent, origin_log := log\<rparr>) =
           Some (None, w\<lparr>cache := (cache w)(h @ '':'' @ str_int p @ pa \<mapsto> original),
                     client_sent := sent @ original,
                     origin_log := log @ [Connect h p, SendAll cget]\<rparr>)"
    using assms(1,4-7,10,15-20)
    by (simp add: handleRequest_def connectionObject_def str_operand_def str_port_def revalidate_def
        connect_def conditional_get_def index_str_def list_get_def exchange_def encode_def decode_def
        send_client_def)
qed

theorem cache_round_trip_witness:
  "handleRequest (py_env ''localhost'' (\<lambda>h p. True) (revalidating_origin [take 40 page, drop 40 page]))
     index_request (startup\<lparr>cacheActive := True\<rparr>)
   = Some (None, startup\<lparr>cacheActive := True, cache := [''example.com:80/index.html'' \<mapsto> page],
         client_sent := page,
         origin_log := [Connect ''example.com'' 80, SendAll plain_get]\<rparr>)
   \<and> handleRequest (py_env ''localhost'' (\<lambda>h p. True) (revalidating_origin [take 40 page, drop 40 page]))
       index_request
       (startup\<lparr>cacheActive := True, cache := [''example.com:80/index.html'' \<mapsto> page],
          client_sent := [], origin_log := [Connect ''example.com'' 80, SendAll plain_get]\<rparr>)
   = Some (None, startup\<lparr>cacheActive := True, cache := [''example.com:80/index.html'' \<mapsto> page],
         client_sent := page,
         origin_log := [Connect ''example.com'' 80, SendAll plain_get,
                        Connect ''example.com'' 80, SendAll conditional]\<rparr>)"
proof -
  let ?e = "py_env ''localhost'' (\<lambda>h p. True) (revalidating_origin [take 40 page, drop 40 page])"
  let ?w = "startup\<lparr>cacheActive := True\<rparr>"
  have a1: "cacheActive ?w" by (simp add: startup_def)
  have a2: "blocked ?e index_request ?w = Some (Inr False)" by (simp add: blocked_def startup_def)
  have a4: "r_host index_request = Some ''example.com''" "r_port index_request = Some 80"
    "r_path index_request = Some ''/index.html''" "r_headers index_request = Some []"
    by (simp_all add: index_request_def)
  have a8: "cache ?w (''example.com'' @ '':'' @ str_int 80 @ ''/index.html'') = None"
    by (simp add: startup_def)
  have a9: "connect_ok ?e ''example.com'' 80" by (simp add: py_env_def)
  have a11: "plain_get = ''GET '' @ ''/index.html'' @ '' HTTP/1.0'' @ CRLF @ ''Host: '' @ ''example.com'' @ CRLF
                 @ ''Connection: close'' @ CRLF @ header_lines [] @ CRLF"
    by (simp add: plain_get_def)
  have a12: "serverContact (origin_reply ?e ''example.com'' 80 plain_get) [] = page"
    by (simp add: py_env_def ex_defs str_defs)
  have a13: "utf8_wellformed (map of_char page)" by (simp add: page_def CRLF_def cont_byte_def)
  have a14: "find_str page ''200 OK'' \<noteq> - 1" by (simp add: page_def str_defs)
  have a15: "find_str page ''Last-Modified:'' \<noteq> - 1" by (simp add: page_def str_defs)
  have a16: "splitlines (slice_from page (find_str page ''Last-Modified:'' + 14))
      = '' Tue, 01 Jan 2025 00:00:00 GMT'' # [[], ''caf'' @ [CHR 0xC3, CHR 0xA9]]"
    by (simp add: page_def str_defs)
  have a17: "conditional = ''GET '' @ ''/index.html'' @ '' HTTP/1.0'' @ CRLF @ ''Host: '' @ ''example.com'' @ CRLF
                 @ ''Connection: close'' @ CRLF @ ''If-Modified-Since:'' @ '' Tue, 01 Jan 2025 00:00:00 GMT'' @ CRLF @ CRLF"
    by (simp add: conditional_def)
  have a18: "serverContact (origin_reply ?e ''example.com'' 80 conditional) [] = not_modified"
    by (simp add: py_env_def ex_defs str_defs)
  have a19: "utf8_wellformed (map of_char not_modified)" by (simp add: not_modified_def CRLF_def)
  have a20: "find_str not_modified ''304 Not Modified'' \<noteq> - 1" by (simp add: not_modified_def str_defs)
  show ?thesis
    using cache_round_trip [OF a1 a2 a2 a4 a8 a9 a9 a11 a12 a13 a14 a15 a16 a17 a18 a19 a20,
        where sent = "[]" and log = "[Connect ''example.com'' 80, SendAll plain_get]"]
    by (simp add: startup_def str_int_def)
qed

end
